theory Spec2Isabelle
  imports Main
begin

section \<open>Python values and exceptions\<close>

text \<open>
  The exceptions the two modules raise.  The specification's names map onto them:
  AmbiguousDtypeError is the \<open>AttributeError\<close> of \<open>add_layer\<close>, DuplicateLayerError and
  UnknownLayerError are its \<open>IndexError\<close>s, TypeConversionError is \<open>TypeError\<close>,
  ConfigMismatchError and InvalidAxisError are failed \<open>assert\<close>s (\<open>AssertionError\<close>).
\<close>

datatype error =
    AttributeError
  | TypeError
  | IndexError
  | AssertionError
  | KeyError
  | ValueError
  | ZeroDivisionError
  | OSError

text \<open>Sequencing of two computations: an exception of the first one propagates.\<close>

fun py_bind :: "error + 'a \<Rightarrow> ('a \<Rightarrow> error + 'b) \<Rightarrow> error + 'b" where
  "py_bind (Inl e) f = Inl e"
| "py_bind (Inr x) f = f x"

subsection \<open>Decimal numerals: \<open>str\<close> and \<open>int\<close>\<close>

definition is_digit :: "char \<Rightarrow> bool" where
  "is_digit c = (c \<in> set ''0123456789'')"

definition digit_char :: "nat \<Rightarrow> char" where
  "digit_char d = ''0123456789'' ! d"

definition digit_val :: "char \<Rightarrow> nat" where
  "digit_val c = of_char c - 48"

function str_nat :: "nat \<Rightarrow> string" where
  "str_nat n = (if n < 10 then [digit_char n]
                else str_nat (n div 10) @ [digit_char (n mod 10)])"
  by pat_completeness auto
termination
  by (relation "measure id") auto

declare str_nat.simps [simp del]

text \<open>\<open>str(i)\<close> for a Python integer.\<close>

definition py_str :: "int \<Rightarrow> string" where
  "py_str i = (if i < 0 then CHR ''-'' # str_nat (nat (- i)) else str_nat (nat i))"

text \<open>\<open>int(part)\<close> for a run of decimal digits.\<close>

definition int_of_digits :: "string \<Rightarrow> int" where
  "int_of_digits ds = int (foldl (\<lambda>a c. 10 * a + digit_val c) 0 ds)"

subsection \<open>\<open>re.split("(\\d+)", s)\<close>\<close>

text \<open>
  Splitting at the runs of digits, the runs themselves kept (the pattern has a capture
  group): the result alternates digit-free parts and digit runs, starting and ending with
  a digit-free part, which may be empty: \<open>"uint24"\<close> gives \<open>["uint", "24", ""]\<close>.
  \<open>split_run in_digits cur s\<close> scans \<open>s\<close> with the part \<open>cur\<close> under construction.
\<close>

fun split_run :: "bool \<Rightarrow> string \<Rightarrow> string \<Rightarrow> string list" where
  "split_run in_digits cur [] = (if in_digits then [cur, []] else [cur])"
| "split_run in_digits cur (c # cs) =
     (if is_digit c = in_digits then split_run in_digits (cur @ [c]) cs
      else cur # split_run (\<not> in_digits) [c] cs)"

definition re_split_digits :: "string \<Rightarrow> string list" where
  "re_split_digits s = split_run False [] s"

subsection \<open>The element types of numpy\<close>

text \<open>
  \<open>np.dtype\<close> belongs to numpy, not to this repository.  A dtype object is represented by
  its canonical name (what \<open>str\<close> gives for it), and \<open>np_dtype\<close> is numpy's constructor on
  the names made of a kind and a bit width, the only ones the repository builds: numpy has
  unsigned integers of 8, 16, 32 and 64 bits and no \<open>uint24\<close>, as the comment in
  \<open>add_layer\<close> records ("casting to np.dtype fails if the user specifies a special dtype
  like uint24").  \<open>np.dtype(None)\<close> is the default type \<open>float64\<close>.  numpy's one-letter
  codes and platform aliases are outside this model.
\<close>

definition numpy_names :: "string list" where
  "numpy_names =
     [''bool'', ''int8'', ''int16'', ''int32'', ''int64'',
      ''uint8'', ''uint16'', ''uint32'', ''uint64'',
      ''float16'', ''float32'', ''float64'', ''complex64'', ''complex128'']"

definition np_dtype :: "string option \<Rightarrow> error + string" where
  "np_dtype d =
     (case d of
        None \<Rightarrow> Inr ''float64''
      | Some s \<Rightarrow> if s \<in> set numpy_names then Inr s else Inl TypeError)"

section \<open>Dtype conversion (\<open>wkcuber/api/Dataset.py\<close>)\<close>

definition DEFAULT_BIT_DEPTH :: int where
  "DEFAULT_BIT_DEPTH = 8"

text \<open>
  \<open>is_int\<close> is only applied to the parts \<open>re.split\<close> returns, which are either runs of
  digits or free of digits; \<open>int\<close> accepts the former and rejects the latter.
\<close>

definition is_int :: "string \<Rightarrow> bool" where
  "is_int s = (s \<noteq> [] \<and> list_all is_digit s)"

text \<open>
  \<open>int(op(int(part), num_channels))\<close>.  \<open>operator.truediv\<close> is the division of floats,
  which raises \<open>ZeroDivisionError\<close> for a zero divisor, and \<open>int\<close> then truncates towards
  zero; the quotient is exact for operands below \<open>2^53\<close>, the range of every bit width.
  Either operator raises \<open>TypeError\<close> when \<open>num_channels\<close> is \<open>None\<close>.
\<close>

definition trunc_div :: "int \<Rightarrow> int \<Rightarrow> int" where
  "trunc_div a b = sgn a * sgn b * (\<bar>a\<bar> div \<bar>b\<bar>)"

definition apply_op :: "bool \<Rightarrow> int \<Rightarrow> int option \<Rightarrow> error + int" where
  "apply_op is_truediv a num_channels =
     (case num_channels of
        None \<Rightarrow> Inl TypeError
      | Some n \<Rightarrow>
          if is_truediv then (if n = 0 then Inl ZeroDivisionError else Inr (trunc_div a n))
          else Inr (a * n))"

fun convert_parts :: "bool \<Rightarrow> int option \<Rightarrow> string list \<Rightarrow> error + string list" where
  "convert_parts is_truediv num_channels [] = Inr []"
| "convert_parts is_truediv num_channels (part # parts) =
     py_bind
       (if is_int part
        then py_bind (apply_op is_truediv (int_of_digits part) num_channels)
               (\<lambda>v. Inr (py_str v))
        else Inr part)
       (\<lambda>p. py_bind (convert_parts is_truediv num_channels parts) (\<lambda>ps. Inr (p # ps)))"

definition convert_dtypes ::
  "string option \<Rightarrow> int option \<Rightarrow> bool \<Rightarrow> error + string option" where
  "convert_dtypes dtype num_channels per_layer_to_per_channel =
     (case dtype of
        None \<Rightarrow> Inr None
      | Some d \<Rightarrow>
          py_bind (convert_parts per_layer_to_per_channel num_channels (re_split_digits d))
            (\<lambda>converted_dtype_parts. Inr (Some (concat converted_dtype_parts))))"

text \<open>
  The \<open>try\<close> block catches \<open>TypeError\<close> only, and raises a \<open>TypeError\<close> again; a
  \<open>ZeroDivisionError\<close> of the conversion passes through.
\<close>

definition dtype_per_layer_to_dtype_per_channel ::
  "string option \<Rightarrow> int option \<Rightarrow> error + string" where
  "dtype_per_layer_to_dtype_per_channel dtype_per_layer num_channels =
     (case py_bind (convert_dtypes dtype_per_layer num_channels True) np_dtype of
        Inl TypeError \<Rightarrow> Inl TypeError
      | r \<Rightarrow> r)"

definition dtype_per_channel_to_dtype_per_layer ::
  "string option \<Rightarrow> int option \<Rightarrow> error + string option" where
  "dtype_per_channel_to_dtype_per_layer dtype_per_channel num_channels =
     py_bind (np_dtype dtype_per_channel)
       (\<lambda>d. convert_dtypes (Some d) num_channels False)"

section \<open>Datasets, layers and properties (\<open>wkcuber/api/Dataset.py\<close>)\<close>

text \<open>
  A layer object, as the layer constructors receive it from \<open>_create_layer\<close>: its name,
  the element type of one channel, the number of channels, and the resolutions set up.
\<close>

record layer =
  l_name :: string
  l_dtype_per_channel :: string
  l_num_channels :: int
  l_mags :: "string list"

text \<open>The descriptor of a layer in the properties (one entry of \<open>data_layers\<close>).\<close>

record layer_properties =
  p_name :: string
  p_category :: string
  p_element_class :: "string option"
  p_data_format :: string
  p_num_channels :: int
  p_wkw_magnifications :: "string list"
  p_extra :: "(string \<times> string) list"

text \<open>What lies under a name in the dataset's directory.\<close>

datatype disk_entry = Directory | Symlink "string list"

text \<open>
  The state the methods of \<open>AbstractDataset\<close> work on: the object's \<open>layers\<close>, the
  \<open>data_layers\<close> of its \<open>properties\<close> and its \<open>data_format\<close>, and the disk below
  \<open>self.path\<close>: the layer table of \<open>datasource-properties.json\<close> as last written
  (\<open>manifest\<close>) and the entries of the directory.  Every method returns its result or
  the exception it raises, together with the state it leaves behind.
\<close>

record dataset =
  layers :: "string \<rightharpoonup> layer"
  data_layers :: "string \<rightharpoonup> layer_properties"
  data_format :: string
  manifest :: "string \<rightharpoonup> layer_properties"
  entries :: "string \<rightharpoonup> disk_entry"

subsection \<open>The collaborators outside \<open>Dataset.py\<close>\<close>

text \<open>
  Modelled from the spec: \<open>Properties._export_as_json\<close>
  (\<open>wkcuber/api/Properties/DatasetProperties.py\<close> is not among the sources): "full manifest
  rewritten each call".
\<close>

definition export_as_json :: "dataset \<Rightarrow> dataset" where
  "export_as_json ds = ds\<lparr>manifest := data_layers ds\<rparr>"

text \<open>
  Modelled from the spec: \<open>Properties._add_layer\<close>, the specification's
  \<open>addLayer(name, category, dtypePerLayer, format, numChannels, extra)\<close>, which "fails if
  name already present" and, as every structural change, is "followed by exportAsJson
  before the call returns".  \<open>add_layer\<close> reaches the failing branch only in a dataset
  whose properties know a layer that \<open>layers\<close> does not.
\<close>

definition properties_add_layer ::
  "dataset \<Rightarrow> string \<Rightarrow> string \<Rightarrow> string option \<Rightarrow> string \<Rightarrow> int \<Rightarrow>
   (string \<times> string) list \<Rightarrow> (error + unit) \<times> dataset" where
  "properties_add_layer ds layer_name category dtype_per_layer format num_channels kwargs =
     (if data_layers ds layer_name \<noteq> None then (Inl IndexError, ds)
      else (Inr (),
            export_as_json (ds\<lparr>data_layers := (data_layers ds)(layer_name \<mapsto>
              \<lparr>p_name = layer_name, p_category = category,
               p_element_class = dtype_per_layer, p_data_format = format,
               p_num_channels = num_channels, p_wkw_magnifications = [],
               p_extra = kwargs\<rparr>)\<rparr>)))"

text \<open>
  Modelled from the spec: \<open>Properties._delete_layer\<close>, the specification's
  \<open>deleteLayer(name)\<close>: the entry is removed and the manifest rewritten.
\<close>

definition properties_delete_layer :: "dataset \<Rightarrow> string \<Rightarrow> dataset" where
  "properties_delete_layer ds layer_name =
     export_as_json (ds\<lparr>data_layers := (data_layers ds)(layer_name := None)\<rparr>)"

text \<open>
  Modelled from the spec: \<open>_create_layer\<close>, which builds the layer object of the dataset's
  format (\<open>wkcuber/api/Layer.py\<close> is not among the sources).  A new layer has no resolution
  yet, and its place on disk is the directory \<open>datasetPath/layerName/\<close>, made when
  nothing lies there.
\<close>

definition create_layer :: "dataset \<Rightarrow> string \<Rightarrow> string \<Rightarrow> int \<Rightarrow> layer \<times> dataset" where
  "create_layer ds layer_name dtype_per_channel num_channels =
     (\<lparr>l_name = layer_name, l_dtype_per_channel = dtype_per_channel,
       l_num_channels = num_channels, l_mags = []\<rparr>,
      (case entries ds layer_name of
         None \<Rightarrow> ds\<lparr>entries := (entries ds)(layer_name \<mapsto> Directory)\<rparr>
       | Some _ \<Rightarrow> ds))"

text \<open>
  Modelled from the spec: \<open>Layer.setup_mag\<close>, which registers one resolution of the layer
  ("re-registering all of its existing resolutions").
\<close>

definition setup_mag :: "layer \<Rightarrow> string \<Rightarrow> layer" where
  "setup_mag l mag_name = l\<lparr>l_mags := List.insert mag_name (l_mags l)\<rparr>"

text \<open>
  \<open>shutil.rmtree\<close> removes a directory tree; it raises an \<open>OSError\<close> for a path that does
  not exist and for a symbolic link.  \<open>os.symlink\<close> raises one when the link's name is
  taken; the empty name is the dataset's directory itself, which exists.  The entries are
  looked up by layer name, taken to be a plain file name.
\<close>

definition rmtree :: "dataset \<Rightarrow> string \<Rightarrow> (error + unit) \<times> dataset" where
  "rmtree ds entry_name =
     (case entries ds entry_name of
        Some Directory \<Rightarrow> (Inr (), ds\<lparr>entries := (entries ds)(entry_name := None)\<rparr>)
      | _ \<Rightarrow> (Inl OSError, ds))"

definition symlink :: "dataset \<Rightarrow> string list \<Rightarrow> string \<Rightarrow> (error + unit) \<times> dataset" where
  "symlink ds target entry_name =
     (if entry_name = [] then (Inl OSError, ds)
      else
        (case entries ds entry_name of
           None \<Rightarrow> (Inr (), ds\<lparr>entries := (entries ds)(entry_name \<mapsto> Symlink target)\<rparr>)
         | Some _ \<Rightarrow> (Inl OSError, ds)))"

subsection \<open>\<open>AbstractDataset\<close>\<close>

text \<open>
  The first part of \<open>add_layer\<close>: the default of \<open>num_channels\<close> is applied by the
  caller below, and the \<open>if\<close>/\<open>elif\<close> chain settles the pair
  \<open>(dtype_per_layer, dtype_per_channel)\<close>.  In the third branch the failed cast of a
  special type such as \<open>uint24\<close> is passed over (\<open>except Exception: pass\<close>).
\<close>

definition resolve_dtypes ::
  "string option \<Rightarrow> string option \<Rightarrow> int \<Rightarrow> error + (string option \<times> string)" where
  "resolve_dtypes dtype_per_layer dtype_per_channel num_channels =
     (if dtype_per_layer \<noteq> None \<and> dtype_per_channel \<noteq> None then Inl AttributeError
      else if dtype_per_channel \<noteq> None then
        py_bind (np_dtype dtype_per_channel)
          (\<lambda>per_channel.
             py_bind (dtype_per_channel_to_dtype_per_layer (Some per_channel) (Some num_channels))
               (\<lambda>per_layer. Inr (per_layer, per_channel)))
      else if dtype_per_layer \<noteq> None then
        (let per_layer = (case np_dtype dtype_per_layer of
                            Inl _ \<Rightarrow> dtype_per_layer
                          | Inr d \<Rightarrow> Some d)
         in py_bind (dtype_per_layer_to_dtype_per_channel per_layer (Some num_channels))
              (\<lambda>per_channel. Inr (per_layer, per_channel)))
      else
        py_bind (np_dtype (Some (''uint'' @ py_str DEFAULT_BIT_DEPTH)))
          (\<lambda>per_channel.
             Inr (Some (''uint'' @ py_str (DEFAULT_BIT_DEPTH * num_channels)), per_channel)))"

definition add_layer ::
  "dataset \<Rightarrow> string \<Rightarrow> string \<Rightarrow> string option \<Rightarrow> string option \<Rightarrow> int option \<Rightarrow>
   (string \<times> string) list \<Rightarrow> (error + layer) \<times> dataset" where
  "add_layer ds layer_name category dtype_per_layer dtype_per_channel num_channels kwargs =
     (let n = (case num_channels of None \<Rightarrow> 1 | Some k \<Rightarrow> k) in
      case resolve_dtypes dtype_per_layer dtype_per_channel n of
        Inl e \<Rightarrow> (Inl e, ds)
      | Inr (per_layer, per_channel) \<Rightarrow>
          if layers ds layer_name \<noteq> None then (Inl IndexError, ds)
          else
            (case properties_add_layer ds layer_name category per_layer (data_format ds) n kwargs of
               (Inl e, ds1) \<Rightarrow> (Inl e, ds1)
             | (Inr _, ds1) \<Rightarrow>
                 (case create_layer ds1 layer_name per_channel n of
                    (l, ds2) \<Rightarrow> (Inr l, ds2\<lparr>layers := (layers ds2)(layer_name \<mapsto> l)\<rparr>))))"

definition get_or_add_layer ::
  "dataset \<Rightarrow> string \<Rightarrow> string \<Rightarrow> string option \<Rightarrow> string option \<Rightarrow> int option \<Rightarrow>
   (string \<times> string) list \<Rightarrow> (error + layer) \<times> dataset" where
  "get_or_add_layer ds layer_name category dtype_per_layer dtype_per_channel num_channels kwargs =
     (case layers ds layer_name of
        Some l \<Rightarrow>
          (case data_layers ds layer_name of
             None \<Rightarrow> (Inl KeyError, ds)
           | Some p \<Rightarrow>
               if p_category p \<noteq> category then (Inl AssertionError, ds)
               else
                 (case dtype_per_layer_to_dtype_per_channel dtype_per_layer num_channels of
                    Inl e \<Rightarrow> (Inl e, ds)
                  | Inr per_channel \<Rightarrow>
                      if \<not> (dtype_per_layer = None \<or> l_dtype_per_channel l = per_channel)
                      then (Inl AssertionError, ds)
                      else if \<not> (num_channels = None \<or> Some (l_num_channels l) = num_channels)
                      then (Inl AssertionError, ds)
                      else (Inr l, ds)))
      | None \<Rightarrow>
          add_layer ds layer_name category dtype_per_layer dtype_per_channel num_channels kwargs)"

definition delete_layer :: "dataset \<Rightarrow> string \<Rightarrow> (error + unit) \<times> dataset" where
  "delete_layer ds layer_name =
     (if layers ds layer_name = None then (Inl IndexError, ds)
      else rmtree (properties_delete_layer
                     (ds\<lparr>layers := (layers ds)(layer_name := None)\<rparr>) layer_name)
             layer_name)"

text \<open>
  \<open>foreign_layer_path\<close> is the absolute, normalised path as the list of its components:
  its last component is the layer's name (\<open>os.path.basename\<close>, empty for the root) and the
  others are the foreign dataset's directory (\<open>Path(...).parent\<close>).  \<open>open_dataset\<close> is
  the construction of a dataset object from a directory, giving the \<open>data_layers\<close> of
  its properties or the exception of the constructor.
\<close>

definition basename :: "string list \<Rightarrow> string" where
  "basename components = (if components = [] then [] else last components)"

definition add_symlink_layer ::
  "(string list \<Rightarrow> error + (string \<rightharpoonup> layer_properties)) \<Rightarrow> dataset \<Rightarrow> string list \<Rightarrow>
   (error + layer) \<times> dataset" where
  "add_symlink_layer open_dataset ds foreign_layer_path =
     (let layer_name = basename foreign_layer_path in
      if layers ds layer_name \<noteq> None then (Inl IndexError, ds)
      else
        (case symlink ds foreign_layer_path layer_name of
           (Inl e, ds1) \<Rightarrow> (Inl e, ds1)
         | (Inr _, ds1) \<Rightarrow>
             (case open_dataset (butlast foreign_layer_path) of
                Inl e \<Rightarrow> (Inl e, ds1)
              | Inr foreign_data_layers \<Rightarrow>
                  (case foreign_data_layers layer_name of
                     None \<Rightarrow> (Inl KeyError, ds1)
                   | Some layer_props \<Rightarrow>
                       (let ds2 = export_as_json
                              (ds1\<lparr>data_layers := (data_layers ds1)(layer_name \<mapsto> layer_props)\<rparr>)
                        in case dtype_per_layer_to_dtype_per_channel
                                  (p_element_class layer_props) (Some (p_num_channels layer_props)) of
                             Inl e \<Rightarrow> (Inl e, ds2)
                           | Inr per_channel \<Rightarrow>
                               (case create_layer ds2 layer_name per_channel
                                       (p_num_channels layer_props) of
                                  (l, ds3) \<Rightarrow>
                                    (let l' = foldl setup_mag l (p_wkw_magnifications layer_props)
                                     in (Inr l', ds3\<lparr>layers := (layers ds3)(layer_name \<mapsto> l')\<rparr>))))))))"

text \<open>
  The invariant of the specification: \<open>layers\<close> and the properties know the same layer
  names.
\<close>

definition layers_match_properties :: "dataset \<Rightarrow> bool" where
  "layers_match_properties ds = (dom (layers ds) = dom (data_layers ds))"

section \<open>Slice export (\<open>wkcuber/export_wkw_as_tiff.py\<close>)\<close>

text \<open>
  A bounding box is the dictionary with the keys \<open>"topleft"\<close> and \<open>"size"\<close>, each a
  triple of integers (\<open>Dict[str, Tuple[int, int, int]]\<close>).
\<close>

record bbox =
  topleft :: "int \<times> int \<times> int"
  size' :: "int \<times> int \<times> int"

definition wkw_name_and_bbox_to_tiff_name :: "string \<Rightarrow> bbox \<Rightarrow> string" where
  "wkw_name_and_bbox_to_tiff_name name b =
     (case topleft b of
        (t0, t1, t2) \<Rightarrow>
          name @ ''_topleft_'' @ py_str t0 @ ''_'' @ py_str t1 @ ''_'' @ py_str t2
            @ ''_size_'' @ py_str t0 @ ''_'' @ py_str t1 @ ''_'' @ py_str t2 @ ''.tiff'')"

text \<open>\<open>os.path.join\<close> of two paths, and of a first path with several others.\<close>

definition path_join2 :: "string \<Rightarrow> string \<Rightarrow> string" where
  "path_join2 a b =
     (if b \<noteq> [] \<and> hd b = CHR ''/'' then b
      else if a = [] \<or> last a = CHR ''/'' then a @ b
      else a @ ''/'' @ b)"

definition path_join :: "string \<Rightarrow> string list \<Rightarrow> string" where
  "path_join a ps = foldl path_join2 a ps"

text \<open>
  One job: \<open>(slice_number, bbox, dest_path, name, axis, dataset_path)\<close>.  The jobs go
  through the executor of \<open>get_executor_for_args\<close>, which is outside this file; jobs
  share no mutable state there (worker processes receive their arguments by value), so
  every job starts from the box \<open>export_tiff_stack\<close> was given.  Run one after the other
  inside one process, the jobs would all assign to the one dictionary the list
  \<open>[bbox] * num_slices\<close> repeats, and the offsets would add up.
\<close>

type_synonym export_args = "int \<times> bbox \<times> string \<times> string \<times> string \<times> string"

text \<open>
  The three steps of \<open>export_tiff_slice\<close> on the box.  The first \<open>if\<close> stands alone;
  the second one carries the \<open>else\<close>, which therefore also runs for the axis \<open>"x"\<close>.
\<close>

definition slice_x :: "string \<Rightarrow> int \<Rightarrow> bbox \<Rightarrow> bbox" where
  "slice_x axis slice_number b =
     (if axis = ''x'' then
        (case (topleft b, size' b) of
           ((t0, t1, t2), (s0, s1, s2)) \<Rightarrow>
             \<lparr>topleft = (t0 + slice_number, t1, t2), size' = (1, s1, s2)\<rparr>)
      else b)"

definition slice_y_else_z :: "string \<Rightarrow> int \<Rightarrow> bbox \<Rightarrow> bbox" where
  "slice_y_else_z axis slice_number b =
     (case (topleft b, size' b) of
        ((t0, t1, t2), (s0, s1, s2)) \<Rightarrow>
          if axis = ''y'' then \<lparr>topleft = (t0, t1 + slice_number, t2), size' = (s0, 1, s2)\<rparr>
          else \<lparr>topleft = (t0, t1, t2 + slice_number), size' = (s0, s1, 1)\<rparr>)"

text \<open>
  What a job does: the box it reads from the storage at \<open>dataset_path\<close>, and the file the
  image is saved to.
\<close>

record slice_export =
  tiff_bbox :: bbox
  tiff_file_path :: string
  read_from :: string

definition export_tiff_slice :: "export_args \<Rightarrow> slice_export" where
  "export_tiff_slice job =
     (case job of
        (slice_number, b, dest_path, name, axis, dataset_path) \<Rightarrow>
          (let tb = slice_y_else_z axis slice_number (slice_x axis slice_number b);
               tiff_file_name = wkw_name_and_bbox_to_tiff_name name tb
           in \<lparr>tiff_bbox = tb,
               tiff_file_path = path_join2 dest_path tiff_file_name,
               read_from = dataset_path\<rparr>))"

text \<open>
  The jobs of \<open>export_tiff_stack\<close>: \<open>zip\<close> of \<open>range(num_slices)\<close> with \<open>num_slices\<close>
  copies of each other argument; \<open>range\<close> of a negative number is empty.
  \<open>mag_name\<close> is \<open>mag.to_layer_name()\<close>.
\<close>

definition num_slices :: "bbox \<Rightarrow> string \<Rightarrow> int" where
  "num_slices b axis =
     (case size' b of
        (s0, s1, s2) \<Rightarrow> if axis = ''x'' then s0 else if axis = ''y'' then s1 else s2)"

definition stack_jobs ::
  "string \<Rightarrow> string \<Rightarrow> bbox \<Rightarrow> string \<Rightarrow> string \<Rightarrow> string \<Rightarrow> string \<Rightarrow> export_args list" where
  "stack_jobs wkw_file_path wkw_layer b mag_name destination_path name axis =
     (let dataset_path = path_join wkw_file_path [wkw_layer, mag_name] in
      map (\<lambda>i. (int i, b, destination_path, name, axis, dataset_path))
        [0 ..< nat (num_slices b axis)])"

text \<open>\<open>executor.map(export_tiff_slice, export_args)\<close>: what the jobs export, in order.\<close>

definition export_tiff_stack ::
  "string \<Rightarrow> string \<Rightarrow> bbox \<Rightarrow> string \<Rightarrow> string \<Rightarrow> string \<Rightarrow> string \<Rightarrow> slice_export list" where
  "export_tiff_stack wkw_file_path wkw_layer b mag_name destination_path name axis =
     map export_tiff_slice
       (stack_jobs wkw_file_path wkw_layer b mag_name destination_path name axis)"

subsection \<open>The command line\<close>

text \<open>The arguments \<open>create_parser\<close> declares, as far as the script reads them.\<close>

record cli_args =
  arg_source_path :: string
  arg_destination_path :: string
  arg_layer_name :: string
  arg_name :: "string option"
  arg_axis :: string
  arg_bbox :: "string option"
  arg_mag :: string

text \<open>
  What the script takes from outside this file: the bounding box of
  \<open>read_metadata_for_layer\<close>, the name in \<open>read_datasource_properties\<close>, the layer name
  of \<open>Mag(args.mag)\<close>, and Python's \<open>int(s.strip())\<close>, each with the exception it may
  raise.
\<close>

record cli_env =
  read_metadata_bbox :: "string \<Rightarrow> string \<Rightarrow> error + bbox"
  read_properties_name :: "string \<Rightarrow> error + string"
  mag_to_layer_name :: "string \<Rightarrow> error + string"
  int_of_stripped :: "string \<Rightarrow> error + int"

text \<open>\<open>s.split(",")\<close>.\<close>

fun split_comma :: "string \<Rightarrow> string \<Rightarrow> string list" where
  "split_comma cur [] = [cur]"
| "split_comma cur (c # cs) =
     (if c = CHR '','' then cur # split_comma [] cs else split_comma (cur @ [c]) cs)"

fun parse_ints :: "(string \<Rightarrow> error + int) \<Rightarrow> string list \<Rightarrow> error + int list" where
  "parse_ints to_int [] = Inr []"
| "parse_ints to_int (s # ss) =
     py_bind (to_int s) (\<lambda>v. py_bind (parse_ints to_int ss) (\<lambda>vs. Inr (v # vs)))"

definition parse_bbox :: "cli_env \<Rightarrow> string \<Rightarrow> error + bbox" where
  "parse_bbox env s =
     py_bind (parse_ints (int_of_stripped env) (split_comma [] s))
       (\<lambda>vs. case vs of
                [a, b, c, d, e, f] \<Rightarrow> Inr \<lparr>topleft = (a, b, c), size' = (d, e, f)\<rparr>
              | _ \<Rightarrow> Inl AssertionError)"

text \<open>
  The script under \<open>if __name__ == "__main__"\<close>: the \<open>assert\<close> on the axis comes first,
  then the bounding box, the name and the resolution, then \<open>export_tiff_stack\<close>.
\<close>

definition main :: "cli_env \<Rightarrow> cli_args \<Rightarrow> error + slice_export list" where
  "main env args =
     (if arg_axis args \<notin> set [''x'', ''y'', ''z''] then Inl AssertionError
      else
        py_bind
          (case arg_bbox args of
             None \<Rightarrow> read_metadata_bbox env (arg_source_path args) (arg_layer_name args)
           | Some s \<Rightarrow> parse_bbox env s)
          (\<lambda>b. py_bind
                 (case arg_name args of
                    None \<Rightarrow> read_properties_name env (arg_source_path args)
                  | Some n \<Rightarrow> Inr n)
                 (\<lambda>name. py_bind (mag_to_layer_name env (arg_mag args))
                    (\<lambda>mag_name.
                       Inr (export_tiff_stack (arg_source_path args) (arg_layer_name args) b
                              mag_name (arg_destination_path args) name (arg_axis args))))))"

section \<open>Sample data\<close>

text \<open>
  A dataset as \<open>WKDataset.create\<close> leaves it, one with a single 8-bit colour layer, the
  layer table of a second dataset with a segmentation layer, and a command line and an
  environment for the export script.
\<close>

definition empty_dataset :: dataset where
  "empty_dataset =
     \<lparr>layers = Map.empty, data_layers = Map.empty, data_format = ''wkw'',
      manifest = Map.empty, entries = Map.empty\<rparr>"

definition color_layer :: layer where
  "color_layer =
     \<lparr>l_name = ''color'', l_dtype_per_channel = ''uint8'', l_num_channels = 1, l_mags = []\<rparr>"

definition color_properties :: layer_properties where
  "color_properties =
     \<lparr>p_name = ''color'', p_category = ''color'', p_element_class = Some ''uint8'',
      p_data_format = ''wkw'', p_num_channels = 1, p_wkw_magnifications = [],
      p_extra = []\<rparr>"

definition color_dataset :: dataset where
  "color_dataset =
     \<lparr>layers = [''color'' \<mapsto> color_layer],
      data_layers = [''color'' \<mapsto> color_properties],
      data_format = ''wkw'',
      manifest = [''color'' \<mapsto> color_properties],
      entries = [''color'' \<mapsto> Directory]\<rparr>"

definition other_dataset :: "string list \<Rightarrow> error + (string \<rightharpoonup> layer_properties)" where
  "other_dataset dir =
     (if dir = [''data'', ''other'']
      then Inr [''mask'' \<mapsto>
                  \<lparr>p_name = ''mask'', p_category = ''segmentation'',
                   p_element_class = Some ''uint32'', p_data_format = ''wkw'',
                   p_num_channels = 1, p_wkw_magnifications = [''1'', ''2''],
                   p_extra = []\<rparr>]
      else Inl OSError)"

definition sample_env :: cli_env where
  "sample_env =
     \<lparr>read_metadata_bbox = (\<lambda>source_path wkw_layer.
         Inr \<lparr>topleft = (0, 0, 0), size' = (10, 20, 30)\<rparr>),
      read_properties_name = (\<lambda>source_path. Inr ''sample''),
      mag_to_layer_name = (\<lambda>m. Inr m),
      int_of_stripped = (\<lambda>s. Inl ValueError)\<rparr>"

definition sample_args :: "string \<Rightarrow> cli_args" where
  "sample_args axis =
     \<lparr>arg_source_path = ''data'', arg_destination_path = ''out'',
      arg_layer_name = ''color'', arg_name = None, arg_axis = axis,
      arg_bbox = None, arg_mag = ''1''\<rparr>"

section \<open>The dtype converter\<close>

subsection \<open>Decimal numerals and the parts of a type name\<close>

lemma digit_char_is_digit: "d < 10 \<Longrightarrow> is_digit (digit_char d)"
proof -
  assume "d < 10"
  then have "d \<in> {0,1,2,3,4,5,6,7,8,9}" by auto
  then show ?thesis by (auto simp: is_digit_def digit_char_def)
qed

lemma digit_val_digit_char: "d < 10 \<Longrightarrow> digit_val (digit_char d) = d"
proof -
  assume "d < 10"
  then have "d \<in> {0,1,2,3,4,5,6,7,8,9}" by auto
  then show ?thesis by (auto simp: digit_val_def digit_char_def)
qed

lemma str_nat_all_digits: "list_all is_digit (str_nat n)"
proof (induction n rule: str_nat.induct)
  case (1 n)
  show ?case
  proof (cases "n < 10")
    case True
    then show ?thesis by (subst str_nat.simps) (simp add: digit_char_is_digit)
  next
    case False
    with 1 show ?thesis by (subst str_nat.simps) (simp add: digit_char_is_digit)
  qed
qed

lemma str_nat_not_Nil: "str_nat n \<noteq> []"
  by (subst str_nat.simps) simp

lemma is_int_str_nat: "is_int (str_nat n)"
  by (simp add: is_int_def str_nat_all_digits str_nat_not_Nil)

lemma int_of_digits_str_nat: "int_of_digits (str_nat n) = int n"
proof -
  have "foldl (\<lambda>a c. 10 * a + digit_val c) 0 (str_nat n) = n"
  proof (induction n rule: str_nat.induct)
    case (1 n)
    show ?case
    proof (cases "n < 10")
      case True
      then show ?thesis by (subst str_nat.simps) (simp add: digit_val_digit_char)
    next
      case False
      with 1 show ?thesis by (subst str_nat.simps) (simp add: digit_val_digit_char)
    qed
  qed
  then show ?thesis by (simp add: int_of_digits_def)
qed

lemma split_run_digits:
  "list_all is_digit ds \<Longrightarrow> split_run True cur ds = [cur @ ds, []]"
  by (induction ds arbitrary: cur) auto

lemma not_digit_uint: "\<not> is_digit CHR ''u''" "\<not> is_digit CHR ''i''" "\<not> is_digit CHR ''n''" "\<not> is_digit CHR ''t''"
  by (simp_all add: is_digit_def)

lemma re_split_uint:
  assumes "ds \<noteq> []" "list_all is_digit ds"
  shows "re_split_digits (''uint'' @ ds) = [''uint'', ds, []]"
proof -
  obtain c cs where ds: "ds = c # cs" using assms(1) by (cases ds) auto
  with assms(2) have c: "is_digit c" and cs: "list_all is_digit cs" by auto
  show ?thesis
    using c split_run_digits [OF cs, of "[c]"]
    by (simp add: re_split_digits_def ds not_digit_uint)
qed

lemma not_is_int_uint: "\<not> is_int ''uint''" "\<not> is_int []"
  by (simp_all add: is_int_def is_digit_def)

lemma convert_dtypes_uint:
  assumes "ds \<noteq> []" and "list_all is_digit ds"
  shows "convert_dtypes (Some (''uint'' @ ds)) (Some n) flag =
     py_bind (apply_op flag (int_of_digits ds) (Some n)) (\<lambda>v. Inr (Some (''uint'' @ py_str v)))"
proof -
  have is_int: "is_int ds" using assms by (simp add: is_int_def)
  have parts: "convert_parts flag (Some n) [''uint'', ds, []] =
     py_bind (apply_op flag (int_of_digits ds) (Some n)) (\<lambda>v. Inr [''uint'', py_str v, []])"
    by (cases "apply_op flag (int_of_digits ds) (Some n)")
       (simp_all add: not_is_int_uint is_int)
  show ?thesis
    unfolding convert_dtypes_def option.case re_split_uint [OF assms] parts
    by (cases "apply_op flag (int_of_digits ds) (Some n)") simp_all
qed

lemma py_str_nonneg: "py_str (int k) = str_nat k"
  by (simp add: py_str_def)

lemma trunc_div_mult: "0 < n \<Longrightarrow> trunc_div (int k * n) n = int k"
  by (cases "k = 0") (simp_all add: trunc_div_def sgn_mult abs_mult)

lemma to_per_layer_uint:
  assumes "0 < n" and "np_dtype (Some (''uint'' @ str_nat k)) = Inr (''uint'' @ str_nat k)"
  shows "dtype_per_channel_to_dtype_per_layer (Some (''uint'' @ str_nat k)) (Some n)
     = Inr (Some (''uint'' @ str_nat (k * nat n)))"
proof -
  have "int k * n = int (k * nat n)" using assms(1) by simp
  then have "py_str (int k * n) = str_nat (k * nat n)" by (simp only: py_str_nonneg)
  then show ?thesis
    unfolding dtype_per_channel_to_dtype_per_layer_def assms(2) py_bind.simps
      convert_dtypes_uint [OF str_nat_not_Nil str_nat_all_digits] int_of_digits_str_nat
    by (simp add: apply_op_def)
qed

lemma to_per_channel_uint:
  assumes "0 < n" and "np_dtype (Some (''uint'' @ str_nat k)) = Inr (''uint'' @ str_nat k)"
  shows "dtype_per_layer_to_dtype_per_channel (Some (''uint'' @ str_nat (k * nat n))) (Some n)
     = Inr (''uint'' @ str_nat k)"
proof -
  have "int (k * nat n) = int k * n" using assms(1) by simp
  then have "trunc_div (int (k * nat n)) n = int k"
    using trunc_div_mult [OF assms(1), of k] by (simp only:)
  then have "apply_op True (int (k * nat n)) (Some n) = Inr (int k)"
    using assms(1) by (simp add: apply_op_def)
  then show ?thesis
    unfolding dtype_per_layer_to_dtype_per_channel_def
      convert_dtypes_uint [OF str_nat_not_Nil str_nat_all_digits] int_of_digits_str_nat
    by (simp only: py_bind.simps py_str_nonneg assms(2) sum.case)
qed

lemma str_nat_widths:
  "str_nat 8 = ''8''" "str_nat 16 = ''16''" "str_nat 24 = ''24''" "str_nat 32 = ''32''" "str_nat 64 = ''64''"
  by (simp_all add: str_nat.simps digit_char_def)

lemma np_dtype_uint:
  "np_dtype (Some ''uint8'') = Inr ''uint8''"
  "np_dtype (Some ''uint16'') = Inr ''uint16''"
  "np_dtype (Some ''uint32'') = Inr ''uint32''"
  "np_dtype (Some ''uint64'') = Inr ''uint64''"
  "np_dtype (Some ''uint24'') = Inl TypeError"
  by (simp_all add: np_dtype_def numpy_names_def)


text \<open>
  C2, as amended.  numpy has unsigned integers of 8, 16, 32 and 64 bits: for a per-channel
  type \<open>d\<close> among them and every positive number of channels (1 to 4 among them),
  converting \<open>d\<close> to the per-layer type and back returns \<open>d\<close>.
\<close>

theorem dtype_round_trip:
  assumes "d \<in> {''uint8'', ''uint16'', ''uint32'', ''uint64''}" and "0 < n"
  shows "py_bind (dtype_per_channel_to_dtype_per_layer (Some d) (Some n))
            (\<lambda>per_layer. dtype_per_layer_to_dtype_per_channel per_layer (Some n))
         = Inr d"
proof -
  have "d = ''uint'' @ str_nat 8 \<or> d = ''uint'' @ str_nat 16
          \<or> d = ''uint'' @ str_nat 32 \<or> d = ''uint'' @ str_nat 64"
    using assms(1) by (auto simp: str_nat_widths)
  then obtain w :: nat where w: "w = 8 \<or> w = 16 \<or> w = 32 \<or> w = 64"
    and d: "d = ''uint'' @ str_nat w"
    by blast
  have np: "np_dtype (Some (''uint'' @ str_nat w)) = Inr (''uint'' @ str_nat w)"
    using w by (auto simp: str_nat_widths np_dtype_uint)
  show ?thesis
    unfolding d to_per_layer_uint [OF assms(2) np] py_bind.simps
    by (rule to_per_channel_uint [OF assms(2) np])
qed

theorem dtype_round_trip_witness:
  "py_bind (dtype_per_channel_to_dtype_per_layer (Some ''uint8'') (Some 3))
     (\<lambda>per_layer. dtype_per_layer_to_dtype_per_channel per_layer (Some 3))
   = Inr ''uint8''"
  using dtype_round_trip [of "''uint8''" 3] by simp

text \<open>
  The claim as it stands includes the width 24, a type numpy does not have: the
  conversion of \<open>uint24\<close> raises \<open>TypeError\<close> in \<open>np.dtype\<close> before any arithmetic.
\<close>

theorem uint24_has_no_round_trip:
  "py_bind (dtype_per_channel_to_dtype_per_layer (Some ''uint24'') (Some 3))
     (\<lambda>per_layer. dtype_per_layer_to_dtype_per_channel per_layer (Some 3))
   = Inl TypeError
   \<and> py_bind (dtype_per_channel_to_dtype_per_layer (Some ''uint24'') (Some 3))
       (\<lambda>per_layer. dtype_per_layer_to_dtype_per_channel per_layer (Some 3))
     \<noteq> Inr ''uint24''"
  by (simp add: dtype_per_channel_to_dtype_per_layer_def np_dtype_uint)

section \<open>Datasets\<close>

subsection \<open>What a call that returns has changed\<close>

lemma py_str_small:
  "py_str 0 = ''0''" "py_str 1 = ''1''" "py_str 5 = ''5''" "py_str 8 = ''8''"
  "py_str 10 = ''10''" "py_str 20 = ''20''" "py_str 24 = ''24''"
  by (simp_all add: py_str_def str_nat.simps digit_char_def)

lemma resolve_dtypes_default:
  "resolve_dtypes None None n = Inr (Some (''uint'' @ py_str (8 * n)), ''uint8'')"
  by (simp add: resolve_dtypes_def DEFAULT_BIT_DEPTH_def py_str_small np_dtype_uint)

lemma add_layer_returns:
  assumes "add_layer ds layer_name category dtype_per_layer dtype_per_channel num_channels kwargs
             = (Inr l, ds')"
  shows "layers ds layer_name = None \<and> data_layers ds layer_name = None
         \<and> layers ds' = (layers ds)(layer_name \<mapsto> l)
         \<and> (\<exists>p. data_layers ds' = (data_layers ds)(layer_name \<mapsto> p) \<and> p_category p = category)"
  using assms
  by (auto simp: add_layer_def Let_def properties_add_layer_def create_layer_def
        export_as_json_def split: sum.splits prod.splits if_splits option.splits)

lemma add_layer_preserves:
  assumes "layers_match_properties ds"
    and "add_layer ds layer_name category dtype_per_layer dtype_per_channel num_channels kwargs
           = (Inr l, ds')"
  shows "layers_match_properties ds'"
  using add_layer_returns [OF assms(2)] assms(1)
  by (auto simp: layers_match_properties_def)

lemma get_or_add_layer_preserves:
  assumes "layers_match_properties ds"
    and "get_or_add_layer ds layer_name category dtype_per_layer dtype_per_channel num_channels
           kwargs = (Inr l, ds')"
  shows "layers_match_properties ds'"
proof (cases "layers ds layer_name")
  case None
  with assms(2) show ?thesis
    using add_layer_preserves [OF assms(1)] by (simp add: get_or_add_layer_def)
next
  case (Some l0)
  with assms(2) have "ds' = ds"
    by (auto simp: get_or_add_layer_def split: option.splits if_splits sum.splits)
  with assms(1) show ?thesis by simp
qed

lemma delete_layer_returns:
  assumes "delete_layer ds layer_name = (Inr u, ds')"
  shows "layers ds' = (layers ds)(layer_name := None)
         \<and> data_layers ds' = (data_layers ds)(layer_name := None)"
  using assms
  by (auto simp: delete_layer_def rmtree_def properties_delete_layer_def export_as_json_def
        split: if_splits option.splits disk_entry.splits)

lemma delete_layer_preserves:
  assumes "layers_match_properties ds" and "delete_layer ds layer_name = (Inr u, ds')"
  shows "layers_match_properties ds'"
  using delete_layer_returns [OF assms(2)] assms(1)
  by (simp add: layers_match_properties_def)

lemma add_symlink_layer_returns:
  assumes "add_symlink_layer open_dataset ds foreign_layer_path = (Inr l, ds')"
  shows "layers ds' = (layers ds)(basename foreign_layer_path \<mapsto> l)
         \<and> (\<exists>p. data_layers ds' = (data_layers ds)(basename foreign_layer_path \<mapsto> p))"
  using assms
  by (auto simp: add_symlink_layer_def Let_def symlink_def create_layer_def export_as_json_def
        split: if_splits option.splits sum.splits prod.splits)

lemma add_symlink_layer_preserves:
  assumes "layers_match_properties ds"
    and "add_symlink_layer open_dataset ds foreign_layer_path = (Inr l, ds')"
  shows "layers_match_properties ds'"
  using add_symlink_layer_returns [OF assms(2)] assms(1)
  by (auto simp: layers_match_properties_def)

lemma color_dataset_matches: "layers_match_properties color_dataset"
  by (simp add: layers_match_properties_def color_dataset_def)

lemma sample_add_layer_returns:
  "\<exists>l ds'. add_layer color_dataset ''mask'' ''segmentation'' None None (Some 1) []
             = (Inr l, ds')"
  by (simp add: add_layer_def Let_def resolve_dtypes_default color_dataset_def
        properties_add_layer_def create_layer_def export_as_json_def)

lemma sample_get_or_add_layer_returns:
  "\<exists>l ds'. get_or_add_layer color_dataset ''mask'' ''segmentation'' None None (Some 1) []
             = (Inr l, ds')"
  by (simp add: get_or_add_layer_def add_layer_def Let_def resolve_dtypes_default
        color_dataset_def properties_add_layer_def create_layer_def export_as_json_def)

lemma sample_delete_layer_returns:
  "\<exists>ds'. delete_layer color_dataset ''color'' = (Inr (), ds')"
  by (simp add: delete_layer_def rmtree_def properties_delete_layer_def export_as_json_def
        color_dataset_def)

lemma sample_add_symlink_layer_returns:
  "\<exists>l ds'. add_symlink_layer other_dataset color_dataset [''data'', ''other'', ''mask'']
             = (Inr l, ds')"
proof -
  have "dtype_per_layer_to_dtype_per_channel (Some ''uint32'') (Some 1) = Inr ''uint32''"
    by code_simp
  then show ?thesis
    by (simp add: add_symlink_layer_def Let_def basename_def symlink_def other_dataset_def
          color_dataset_def export_as_json_def create_layer_def)
qed

subsection \<open>The invariant\<close>

text \<open>
  C3.  In a dataset whose \<open>layers\<close> and properties know the same layer names, each of
  \<open>add_layer\<close>, \<open>get_or_add_layer\<close>, \<open>delete_layer\<close> and \<open>add_symlink_layer\<close>, when it
  returns normally, leaves a dataset in which they again know the same names.
\<close>

theorem layers_match_properties_preserved:
  assumes "layers_match_properties ds"
  shows "(\<forall>l ds'. add_layer ds layer_name category dtype_per_layer dtype_per_channel
                     num_channels kwargs = (Inr l, ds') \<longrightarrow> layers_match_properties ds')
       \<and> (\<forall>l ds'. get_or_add_layer ds layer_name category dtype_per_layer dtype_per_channel
                     num_channels kwargs = (Inr l, ds') \<longrightarrow> layers_match_properties ds')
       \<and> (\<forall>u ds'. delete_layer ds layer_name = (Inr u, ds') \<longrightarrow> layers_match_properties ds')
       \<and> (\<forall>l ds'. add_symlink_layer open_dataset ds foreign_layer_path = (Inr l, ds')
                     \<longrightarrow> layers_match_properties ds')"
proof (intro conjI allI impI)
  fix l ds'
  assume "add_layer ds layer_name category dtype_per_layer dtype_per_channel num_channels kwargs
            = (Inr l, ds')"
  then show "layers_match_properties ds'" by (rule add_layer_preserves [OF assms])
next
  fix l ds'
  assume "get_or_add_layer ds layer_name category dtype_per_layer dtype_per_channel
            num_channels kwargs = (Inr l, ds')"
  then show "layers_match_properties ds'" by (rule get_or_add_layer_preserves [OF assms])
next
  fix u ds'
  assume "delete_layer ds layer_name = (Inr u, ds')"
  then show "layers_match_properties ds'" by (rule delete_layer_preserves [OF assms])
next
  fix l ds'
  assume "add_symlink_layer open_dataset ds foreign_layer_path = (Inr l, ds')"
  then show "layers_match_properties ds'" by (rule add_symlink_layer_preserves [OF assms])
qed

theorem layers_match_properties_preserved_witness:
  "layers_match_properties color_dataset
   \<and> (\<exists>l ds'. add_layer color_dataset ''mask'' ''segmentation'' None None (Some 1) []
                 = (Inr l, ds') \<and> layers_match_properties ds')
   \<and> (\<exists>l ds'. get_or_add_layer color_dataset ''mask'' ''segmentation'' None None (Some 1) []
                 = (Inr l, ds') \<and> layers_match_properties ds')
   \<and> (\<exists>ds'. delete_layer color_dataset ''color'' = (Inr (), ds')
               \<and> layers_match_properties ds')
   \<and> (\<exists>l ds'. add_symlink_layer other_dataset color_dataset [''data'', ''other'', ''mask'']
                 = (Inr l, ds') \<and> layers_match_properties ds')"
proof -
  note preserved =
    layers_match_properties_preserved
      [OF color_dataset_matches, of _ _ _ _ _ _ other_dataset "[''data'', ''other'', ''mask'']"]
  obtain l1 d1 where a: "add_layer color_dataset ''mask'' ''segmentation'' None None (Some 1) []
                           = (Inr l1, d1)"
    using sample_add_layer_returns by auto
  obtain l2 d2 where g: "get_or_add_layer color_dataset ''mask'' ''segmentation'' None None
                           (Some 1) [] = (Inr l2, d2)"
    using sample_get_or_add_layer_returns by auto
  obtain d3 where d: "delete_layer color_dataset ''color'' = (Inr (), d3)"
    using sample_delete_layer_returns by auto
  obtain l4 d4 where s: "add_symlink_layer other_dataset color_dataset
                           [''data'', ''other'', ''mask''] = (Inr l4, d4)"
    using sample_add_symlink_layer_returns by auto
  have "layers_match_properties d1" using preserved a by blast
  moreover have "layers_match_properties d2" using preserved g by blast
  moreover have "layers_match_properties d3" using preserved d by blast
  moreover have "layers_match_properties d4" using preserved s by blast
  ultimately show ?thesis using color_dataset_matches a g d s by auto
qed

subsection \<open>Adding a layer\<close>

text \<open>
  C8.  \<open>add_layer\<close> with both a per-layer and a per-channel dtype fails with
  \<open>AttributeError\<close> (AmbiguousDtypeError) in every dataset, whatever the other arguments,
  and the dataset is left as it was: no layer is added.
\<close>

theorem add_layer_both_dtypes:
  "add_layer ds layer_name category (Some per_layer) (Some per_channel) num_channels kwargs
     = (Inl AttributeError, ds)"
  by (simp add: add_layer_def resolve_dtypes_def)

text \<open>
  C9.  In a dataset that has no layer of the name yet, \<open>add_layer\<close> with neither dtype
  returns a layer whose per-channel type is \<open>uint8\<close>, and records the per-layer type
  \<open>uint\<close> followed by eight times the number of channels; with three channels that is
  \<open>uint24\<close>.
\<close>

theorem add_layer_default_dtype:
  assumes "layers_match_properties ds" and "layers ds layer_name = None"
  shows "\<exists>l p ds'.
           add_layer ds layer_name category None None num_channels kwargs = (Inr l, ds')
           \<and> layers ds' layer_name = Some l
           \<and> data_layers ds' layer_name = Some p
           \<and> l_dtype_per_channel l = ''uint8''
           \<and> p_element_class p =
               Some (''uint'' @ py_str (8 * (case num_channels of None \<Rightarrow> 1 | Some k \<Rightarrow> k)))
           \<and> (num_channels = Some 3 \<longrightarrow> p_element_class p = Some ''uint24'')"
proof -
  have "layer_name \<notin> dom (data_layers ds)"
    using assms by (auto simp: layers_match_properties_def)
  then have "data_layers ds layer_name = None"
    by (simp add: domIff)
  with assms(2) show ?thesis
    by (auto simp: add_layer_def Let_def resolve_dtypes_default properties_add_layer_def
          create_layer_def export_as_json_def py_str_small split: option.splits)
qed

lemma empty_dataset_matches: "layers_match_properties empty_dataset"
  by (simp add: layers_match_properties_def empty_dataset_def)

theorem add_layer_default_dtype_witness:
  "\<exists>l p ds'.
     add_layer empty_dataset ''color'' ''color'' None None (Some 3) [] = (Inr l, ds')
     \<and> layers ds' ''color'' = Some l
     \<and> data_layers ds' ''color'' = Some p
     \<and> l_dtype_per_channel l = ''uint8''
     \<and> p_element_class p = Some ''uint24''"
proof -
  have "layers empty_dataset ''color'' = None"
    by (simp add: empty_dataset_def)
  from add_layer_default_dtype [OF empty_dataset_matches this, of "''color''" "Some 3" "[]"]
  show ?thesis by auto
qed

text \<open>
  C6, as amended.  \<open>add_layer\<close> with the name of a layer the dataset has always fails and
  leaves the dataset (layers, properties and disk) as it was.  The dtype arguments are
  settled before the name is looked up: the exception is \<open>IndexError\<close>
  (DuplicateLayerError) when they can be settled, as they can when neither is given, and
  otherwise the exception of the dtype arguments.
\<close>

theorem add_layer_existing_name:
  assumes "layers ds layer_name \<noteq> None"
  shows "add_layer ds layer_name category dtype_per_layer dtype_per_channel num_channels kwargs
           = (Inl (case resolve_dtypes dtype_per_layer dtype_per_channel
                          (case num_channels of None \<Rightarrow> 1 | Some k \<Rightarrow> k) of
                     Inl e \<Rightarrow> e
                   | Inr _ \<Rightarrow> IndexError), ds)
         \<and> add_layer ds layer_name category None None num_channels kwargs = (Inl IndexError, ds)"
  using assms
  by (auto simp: add_layer_def Let_def resolve_dtypes_default split: sum.splits)

theorem add_layer_existing_name_witness:
  "layers color_dataset ''color'' \<noteq> None
   \<and> add_layer color_dataset ''color'' ''color'' (Some ''uint8'') None (Some 1) []
       = (Inl IndexError, color_dataset)
   \<and> add_layer color_dataset ''color'' ''color'' None None (Some 1) []
       = (Inl IndexError, color_dataset)"
proof -
  have present: "layers color_dataset ''color'' \<noteq> None"
    by (simp add: color_dataset_def)
  have "dtype_per_layer_to_dtype_per_channel (Some ''uint8'') (Some 1) = Inr ''uint8''"
    by code_simp
  then have "resolve_dtypes (Some ''uint8'') None 1 = Inr (Some ''uint8'', ''uint8'')"
    by (simp add: resolve_dtypes_def np_dtype_uint)
  with add_layer_existing_name [OF present, of "''color''" "Some ''uint8''" None "Some 1" "[]"]
    present
  show ?thesis by simp
qed

text \<open>
  The claim as it stands promises DuplicateLayerError for every call with a name that is
  present.  A call with both dtypes ends in the check of the dtypes, with
  \<open>AttributeError\<close>.
\<close>

theorem existing_name_with_both_dtypes:
  "layers color_dataset ''color'' \<noteq> None
   \<and> fst (add_layer color_dataset ''color'' ''color'' (Some ''uint8'') (Some ''uint8'') None [])
       = Inl AttributeError
   \<and> fst (add_layer color_dataset ''color'' ''color'' (Some ''uint8'') (Some ''uint8'') None [])
       \<noteq> Inl IndexError"
  by (simp add: color_dataset_def add_layer_def resolve_dtypes_def)

subsection \<open>Getting or adding a layer\<close>

text \<open>
  C10.  When the layer exists with the category asked for, and the number of channels
  is omitted or the layer's own, \<open>get_or_add_layer\<close> without a per-layer dtype returns
  the existing layer and changes nothing, whatever per-channel dtype is passed: that
  argument is not compared with the layer.
\<close>

theorem get_or_add_layer_per_channel_only:
  assumes "layers ds layer_name = Some l"
    and "data_layers ds layer_name = Some p"
    and "p_category p = category"
    and "num_channels = None \<or> num_channels = Some (l_num_channels l)"
  shows "get_or_add_layer ds layer_name category None dtype_per_channel num_channels kwargs
           = (Inr l, ds)"
  using assms
  by (auto simp: get_or_add_layer_def dtype_per_layer_to_dtype_per_channel_def
        convert_dtypes_def np_dtype_def)

theorem get_or_add_layer_per_channel_only_witness:
  "l_dtype_per_channel color_layer \<noteq> ''uint16''
   \<and> get_or_add_layer color_dataset ''color'' ''color'' None (Some ''uint16'') (Some 1) []
       = (Inr color_layer, color_dataset)"
proof -
  have "layers color_dataset ''color'' = Some color_layer"
    and "data_layers color_dataset ''color'' = Some color_properties"
    and "p_category color_properties = ''color''"
    and "Some 1 = None \<or> Some 1 = Some (l_num_channels color_layer)"
    by (simp_all add: color_dataset_def color_properties_def color_layer_def)
  from get_or_add_layer_per_channel_only [OF this, of "Some ''uint16''" "[]"]
  show ?thesis by (simp add: color_layer_def)
qed

text \<open>With a per-layer dtype the comparison is made, and a different type is refused.\<close>

lemma get_or_add_layer_per_layer_mismatch:
  assumes "layers ds layer_name = Some l"
    and "data_layers ds layer_name = Some p"
    and "p_category p = category"
    and "dtype_per_layer_to_dtype_per_channel (Some d) num_channels = Inr per_channel"
    and "l_dtype_per_channel l \<noteq> per_channel"
  shows "get_or_add_layer ds layer_name category (Some d) dtype_per_channel num_channels kwargs
           = (Inl AssertionError, ds)"
  using assms by (simp add: get_or_add_layer_def)

text \<open>
  C7.  The second of two identical calls fails when a per-layer dtype is given and the
  number of channels is left out: the first call adds the layer with one channel, the
  second one divides the bit width by \<open>None\<close>.
\<close>

theorem get_or_add_layer_twice_fails:
  "fst (get_or_add_layer empty_dataset ''color'' ''color'' (Some ''uint8'') None None [])
     = Inr \<lparr>l_name = ''color'', l_dtype_per_channel = ''uint8'', l_num_channels = 1, l_mags = []\<rparr>
   \<and> fst (get_or_add_layer
           (snd (get_or_add_layer empty_dataset ''color'' ''color'' (Some ''uint8'') None None []))
           ''color'' ''color'' (Some ''uint8'') None None [])
     = Inl TypeError"
  by code_simp

text \<open>
  With the number of channels given, or without a per-layer dtype, a call that has
  returned returns the same layer again and changes nothing more.
\<close>

lemma add_layer_returns_layer:
  assumes "add_layer ds layer_name category dtype_per_layer dtype_per_channel num_channels kwargs
             = (Inr l, ds')"
  shows "\<exists>per_layer.
           resolve_dtypes dtype_per_layer dtype_per_channel
             (case num_channels of None \<Rightarrow> 1 | Some k \<Rightarrow> k)
           = Inr (per_layer, l_dtype_per_channel l)
         \<and> l_num_channels l = (case num_channels of None \<Rightarrow> 1 | Some k \<Rightarrow> k)"
  using assms
  by (auto simp: add_layer_def Let_def properties_add_layer_def create_layer_def
        split: sum.splits prod.splits if_splits)

lemma resolve_dtypes_per_layer:
  assumes "resolve_dtypes (Some d) dtype_per_channel k = Inr (per_layer, per_channel)"
  shows "dtype_per_layer_to_dtype_per_channel (Some d) (Some k) = Inr per_channel"
  using assms
  by (cases "dtype_per_layer_to_dtype_per_channel (Some d) (Some k)")
     (auto simp: resolve_dtypes_def np_dtype_def split: if_splits)

lemma get_or_add_layer_again:
  assumes "get_or_add_layer ds layer_name category dtype_per_layer dtype_per_channel
             num_channels kwargs = (Inr l, ds')"
    and "dtype_per_layer = None \<or> num_channels \<noteq> None"
  shows "get_or_add_layer ds' layer_name category dtype_per_layer dtype_per_channel
           num_channels kwargs = (Inr l, ds')"
proof (cases "layers ds layer_name")
  case (Some l0)
  with assms(1) have "ds' = ds"
    by (auto simp: get_or_add_layer_def split: option.splits if_splits sum.splits)
  with assms(1) show ?thesis by simp
next
  case None
  with assms(1) have add:
    "add_layer ds layer_name category dtype_per_layer dtype_per_channel num_channels kwargs
       = (Inr l, ds')"
    by (simp add: get_or_add_layer_def)
  from add_layer_returns [OF add] obtain p where
    l: "layers ds' layer_name = Some l" and p: "data_layers ds' layer_name = Some p"
    and c: "p_category p = category"
    by auto
  from add_layer_returns_layer [OF add] obtain per_layer where
    r: "resolve_dtypes dtype_per_layer dtype_per_channel
          (case num_channels of None \<Rightarrow> 1 | Some k \<Rightarrow> k) = Inr (per_layer, l_dtype_per_channel l)"
    and n: "l_num_channels l = (case num_channels of None \<Rightarrow> 1 | Some k \<Rightarrow> k)"
    by auto
  show ?thesis
  proof (cases dtype_per_layer)
    case None
    have "num_channels = None \<or> num_channels = Some (l_num_channels l)"
      using n by (cases num_channels) auto
    then show ?thesis
      using l p c None
      by (auto simp: get_or_add_layer_def dtype_per_layer_to_dtype_per_channel_def
            convert_dtypes_def np_dtype_def)
  next
    case (Some d)
    with assms(2) obtain k where k: "num_channels = Some k" by auto
    have "dtype_per_layer_to_dtype_per_channel (Some d) (Some k) = Inr (l_dtype_per_channel l)"
      using r Some k resolve_dtypes_per_layer by simp
    then show ?thesis
      using l p c Some k n by (simp add: get_or_add_layer_def)
  qed
qed

section \<open>Slice export\<close>

subsection \<open>The jobs of a stack\<close>

lemma length_export_tiff_stack:
  "length (export_tiff_stack wkw_file_path wkw_layer b mag_name destination_path name axis)
     = nat (num_slices b axis)"
  by (simp add: export_tiff_stack_def stack_jobs_def Let_def)

lemma nth_export_tiff_stack:
  "i < nat (num_slices b axis) \<Longrightarrow>
   export_tiff_stack wkw_file_path wkw_layer b mag_name destination_path name axis ! i
     = export_tiff_slice (int i, b, destination_path, name, axis,
         path_join wkw_file_path [wkw_layer, mag_name])"
  by (simp add: export_tiff_stack_def stack_jobs_def Let_def)

text \<open>
  Along the second axis, and along the third one (the \<open>else\<close> branch, taken by every
  axis other than \<open>"x"\<close> and \<open>"y"\<close>), the box of slice \<open>i\<close> is the source box with
  that axis moved by \<open>i\<close> and made one voxel thick.
\<close>

lemma slice_box_y:
  "tiff_bbox (export_tiff_slice (i, \<lparr>topleft = (t0, t1, t2), size' = (s0, s1, s2)\<rparr>,
      dest_path, name, ''y'', dataset_path))
   = \<lparr>topleft = (t0, t1 + i, t2), size' = (s0, 1, s2)\<rparr>"
  by (simp add: export_tiff_slice_def slice_x_def slice_y_else_z_def Let_def)

lemma slice_box_other:
  "axis \<noteq> ''x'' \<Longrightarrow> axis \<noteq> ''y'' \<Longrightarrow>
   tiff_bbox (export_tiff_slice (i, \<lparr>topleft = (t0, t1, t2), size' = (s0, s1, s2)\<rparr>,
      dest_path, name, axis, dataset_path))
   = \<lparr>topleft = (t0, t1, t2 + i), size' = (s0, s1, 1)\<rparr>"
  by (simp add: export_tiff_slice_def slice_x_def slice_y_else_z_def Let_def)

text \<open>Along the first axis both assignments run, and the third axis is cut as well.\<close>

lemma slice_box_x:
  "tiff_bbox (export_tiff_slice (i, \<lparr>topleft = (t0, t1, t2), size' = (s0, s1, s2)\<rparr>,
      dest_path, name, ''x'', dataset_path))
   = \<lparr>topleft = (t0 + i, t1, t2 + i), size' = (1, s1, 1)\<rparr>"
  by (simp add: export_tiff_slice_def slice_x_def slice_y_else_z_def Let_def)

text \<open>The example of the specification, along the third axis: thirty slices.\<close>

lemma third_axis_example:
  "map tiff_bbox
     (export_tiff_stack wkw_file_path wkw_layer \<lparr>topleft = (0, 0, 0), size' = (10, 20, 30)\<rparr>
        mag_name destination_path name ''z'')
   = map (\<lambda>i. \<lparr>topleft = (0, 0, int i), size' = (10, 20, 1)\<rparr>) [0 ..< 30]"
  by (simp add: export_tiff_stack_def stack_jobs_def Let_def num_slices_def slice_box_other
        comp_def del: upt_Suc)

text \<open>
  C1.  The same box exported along the first axis gives ten jobs, and the job of slice 1
  reads the box at \<open>[1, 0, 1]\<close> of size \<open>[1, 20, 1]\<close>, where the claim has \<open>[1, 0, 0]\<close>
  and \<open>[1, 20, 30]\<close>.
\<close>

theorem first_axis_slice_cuts_third_axis:
  "length (export_tiff_stack ''data'' ''color'' \<lparr>topleft = (0, 0, 0), size' = (10, 20, 30)\<rparr>
             ''1'' ''out'' ''sample'' ''x'') = 10
   \<and> tiff_bbox (export_tiff_stack ''data'' ''color''
                  \<lparr>topleft = (0, 0, 0), size' = (10, 20, 30)\<rparr> ''1'' ''out'' ''sample'' ''x'' ! 1)
       = \<lparr>topleft = (1, 0, 1), size' = (1, 20, 1)\<rparr>
   \<and> tiff_bbox (export_tiff_stack ''data'' ''color''
                  \<lparr>topleft = (0, 0, 0), size' = (10, 20, 30)\<rparr> ''1'' ''out'' ''sample'' ''x'' ! 1)
       \<noteq> \<lparr>topleft = (1, 0, 0), size' = (1, 20, 30)\<rparr>"
  by (simp add: length_export_tiff_stack nth_export_tiff_stack num_slices_def slice_box_x)

subsection \<open>File names\<close>

text \<open>
  C4.  For the slice box at \<open>[0, 0, 5]\<close> of size \<open>[10, 20, 1]\<close> the file name ends in
  \<open>_size_0_0_5.tiff\<close>: the size fields repeat the corner, where the claim has the
  size, \<open>_size_10_20_1.tiff\<close>.
\<close>

theorem tiff_name_repeats_topleft:
  "wkw_name_and_bbox_to_tiff_name ''color'' \<lparr>topleft = (0, 0, 5), size' = (10, 20, 1)\<rparr>
     = ''color_topleft_0_0_5_size_0_0_5.tiff''
   \<and> wkw_name_and_bbox_to_tiff_name ''color'' \<lparr>topleft = (0, 0, 5), size' = (10, 20, 1)\<rparr>
     \<noteq> ''color_topleft_0_0_5_size_10_20_1.tiff''"
  by (simp add: wkw_name_and_bbox_to_tiff_name_def py_str_small)

text \<open>The name of a box does not depend on its size at all.\<close>

lemma tiff_name_ignores_size:
  "wkw_name_and_bbox_to_tiff_name name (b\<lparr>size' := s\<rparr>) = wkw_name_and_bbox_to_tiff_name name b"
  by (simp add: wkw_name_and_bbox_to_tiff_name_def)

subsection \<open>The axis argument\<close>

text \<open>
  C5.  The script started with an axis other than \<open>"x"\<close>, \<open>"y"\<close> and \<open>"z"\<close> fails with
  \<open>AssertionError\<close> (InvalidAxisError), whatever the other arguments and whatever the
  sources hold: nothing has been read and no job has been built.
\<close>

theorem main_rejects_axis:
  assumes "arg_axis args \<noteq> ''x''" and "arg_axis args \<noteq> ''y''" and "arg_axis args \<noteq> ''z''"
  shows "main env args = Inl AssertionError"
  using assms by (simp add: main_def)

theorem main_rejects_axis_witness:
  "arg_axis (sample_args ''w'') \<noteq> ''x'' \<and> arg_axis (sample_args ''w'') \<noteq> ''y''
   \<and> arg_axis (sample_args ''w'') \<noteq> ''z''
   \<and> main sample_env (sample_args ''w'') = Inl AssertionError"
proof -
  have "arg_axis (sample_args ''w'') \<noteq> ''x''" and "arg_axis (sample_args ''w'') \<noteq> ''y''"
    and "arg_axis (sample_args ''w'') \<noteq> ''z''"
    by (simp_all add: sample_args_def)
  from this main_rejects_axis [OF this, of sample_env] show ?thesis by simp
qed

text \<open>
  With a valid axis the script goes on to the jobs: the sample command line along
  \<open>"z"\<close> gives the thirty slices of the sample box.  \<open>export_tiff_stack\<close> itself does
  not look at the axis beyond the choice of the index, any other letter being taken as
  the third axis.
\<close>

lemma main_sample_z:
  "map_sum id (map tiff_bbox) (main sample_env (sample_args ''z''))
     = Inr (map (\<lambda>i. \<lparr>topleft = (0, 0, int i), size' = (10, 20, 1)\<rparr>) [0 ..< 30])"
  by (simp add: main_def sample_env_def sample_args_def third_axis_example del: upt_Suc)

lemma export_tiff_stack_other_axis:
  "axis \<noteq> ''x'' \<Longrightarrow> axis \<noteq> ''y'' \<Longrightarrow>
   map tiff_bbox (export_tiff_stack wkw_file_path wkw_layer b mag_name destination_path name axis)
     = map tiff_bbox
         (export_tiff_stack wkw_file_path wkw_layer b mag_name destination_path name ''z'')"
  by (cases b, cases "topleft b", cases "size' b")
     (auto simp: export_tiff_stack_def stack_jobs_def Let_def num_slices_def
        export_tiff_slice_def slice_x_def slice_y_else_z_def)

end
